theory Spec2Isabelle
  imports Main "HOL-Library.Sublist"
begin

section \<open>Python strings\<close>

text \<open>
  Texts are lists of \<^typ>\<open>char\<close>, read as the code points 0 to 255. On that range
  \<^verbatim>\<open>str.isspace\<close>, \<^verbatim>\<open>str.strip\<close> and the regular expression class \<^verbatim>\<open>\s\<close> agree on
  the twelve characters below, \<^verbatim>\<open>\d\<close> is the ten ASCII digits, and a pattern letter
  matched under \<^verbatim>\<open>re.IGNORECASE\<close> accepts exactly its two ASCII cases.
\<close>

definition is_space :: "char \<Rightarrow> bool" where
  "is_space c = (c \<in> set [CHR 0x09, CHR 0x0A, CHR 0x0B, CHR 0x0C, CHR 0x0D, CHR 0x1C,
                          CHR 0x1D, CHR 0x1E, CHR 0x1F, CHR 0x20, CHR 0x85, CHR 0xA0])"

definition is_digit :: "char \<Rightarrow> bool" where
  "is_digit c = (c \<in> set ''0123456789'')"

text \<open>The line boundaries of \<^verbatim>\<open>str.splitlines\<close> (below code point 256).\<close>

definition is_linebreak :: "char \<Rightarrow> bool" where
  "is_linebreak c = (c \<in> set [CHR 0x0A, CHR 0x0B, CHR 0x0C, CHR 0x0D, CHR 0x1C, CHR 0x1D,
                              CHR 0x1E, CHR 0x85])"

definition lower :: "char \<Rightarrow> char" where
  "lower c = (case map_of (zip ''ABCDEFGHIJKLMNOPQRSTUVWXYZ'' ''abcdefghijklmnopqrstuvwxyz'') c of
                None \<Rightarrow> c | Some l \<Rightarrow> l)"

definition upper :: "char \<Rightarrow> char" where
  "upper c = (case map_of (zip ''abcdefghijklmnopqrstuvwxyz'' ''ABCDEFGHIJKLMNOPQRSTUVWXYZ'') c of
                None \<Rightarrow> c | Some u \<Rightarrow> u)"

text \<open>\<^verbatim>\<open>s.strip()\<close>\<close>

definition strip :: "string \<Rightarrow> string" where
  "strip s = rev (dropWhile is_space (rev (dropWhile is_space s)))"

text \<open>\<^verbatim>\<open>"\n".join(xs)\<close> and \<^verbatim>\<open>sep.join(xs)\<close>\<close>

fun join :: "string \<Rightarrow> string list \<Rightarrow> string" where
  "join sep [] = []"
| "join sep [x] = x"
| "join sep (x # y # ys) = x @ sep @ join sep (y # ys)"

text \<open>
  \<^verbatim>\<open>s.splitlines()\<close>: a line ends at a line boundary, \<^verbatim>\<open>\r\n\<close> counts as one boundary,
  and no empty last line is produced. The flag says that the previous character was a
  carriage return, in which case a line feed belongs to the boundary already taken.
\<close>

fun splitlines_from :: "string \<Rightarrow> bool \<Rightarrow> string \<Rightarrow> string list" where
  "splitlines_from cur after_cr [] = (if cur = [] then [] else [rev cur])"
| "splitlines_from cur after_cr (c # cs) =
     (if after_cr \<and> c = CHR 0x0A then splitlines_from cur False cs
      else if is_linebreak c then rev cur # splitlines_from [] (c = CHR 0x0D) cs
      else splitlines_from (c # cur) False cs)"

definition splitlines :: "string \<Rightarrow> string list" where
  "splitlines s = splitlines_from [] False s"

section \<open>The regular expressions of Python's re module\<close>

text \<open>
  The patterns of the program are values of the datatype \<open>re\<close>. Every quantifier of the
  program (\<^verbatim>\<open>*\<close>, \<^verbatim>\<open>+\<close>, \<^verbatim>\<open>?\<close>, \<^verbatim>\<open>{m,n}\<close>, \<^verbatim>\<open>*?\<close>) is applied to a single-character item, so
  \<open>Rep\<close> repeats an \<open>atom\<close>: \<open>Rep a lo hi greedy\<close> is \<^verbatim>\<open>a{lo,hi}\<close>, with \<open>hi = None\<close> for
  no upper bound and \<open>greedy = False\<close> for the lazy form.
\<close>

datatype citem = Ch char | Rng char char | Space | Digit

datatype atom = Chr char | Dot | Set "citem list"

datatype re =
    Atom atom
  | Str string
  | Rep atom nat "nat option" bool
  | Seq re re
  | Alt re re
  | Group nat re
  | Caret
  | Dollar
  | EndZ
  | Look re

record flags =
  ignorecase :: bool
  multiline :: bool
  dotall :: bool

text \<open>
  A matcher state: the character before the current position (\<open>None\<close> at the start of the
  text), the text from the current position on, and the groups captured so far (the last
  capture of a group first).
\<close>

record mstate =
  prev :: "char option"
  rest :: string
  caps :: "(nat \<times> string) list"

definition chr_ok :: "flags \<Rightarrow> char \<Rightarrow> char \<Rightarrow> bool" where
  "chr_ok fl c x = (if ignorecase fl then lower x = lower c else x = c)"

definition in_rng :: "char \<Rightarrow> char \<Rightarrow> char \<Rightarrow> bool" where
  "in_rng a b x = ((of_char a :: nat) \<le> of_char x \<and> (of_char x :: nat) \<le> of_char b)"

fun item_ok :: "flags \<Rightarrow> citem \<Rightarrow> char \<Rightarrow> bool" where
  "item_ok fl (Ch c) x = chr_ok fl c x"
| "item_ok fl (Rng a b) x =
     (in_rng a b x \<or> (ignorecase fl \<and> (in_rng a b (lower x) \<or> in_rng a b (upper x))))"
| "item_ok fl Space x = is_space x"
| "item_ok fl Digit x = is_digit x"

fun atom_ok :: "flags \<Rightarrow> atom \<Rightarrow> char \<Rightarrow> bool" where
  "atom_ok fl (Chr c) x = chr_ok fl c x"
| "atom_ok fl Dot x = (dotall fl \<or> x \<noteq> CHR 0x0A)"
| "atom_ok fl (Set items) x = list_ex (\<lambda>i. item_ok fl i x) items"

text \<open>
  \<open>runs fl a p txt\<close> lists the positions reached from \<open>txt\<close> by consuming 0, 1, 2, ...
  characters that all satisfy the atom, each with the character before it.
\<close>

fun runs :: "flags \<Rightarrow> atom \<Rightarrow> char option \<Rightarrow> string \<Rightarrow> (char option \<times> string) list" where
  "runs fl a p [] = [(p, [])]"
| "runs fl a p (c # cs) =
     (p, c # cs) # (if atom_ok fl a c then runs fl a (Some c) cs else [])"

text \<open>Matching a literal string at the current position.\<close>

fun lit :: "flags \<Rightarrow> string \<Rightarrow> char option \<Rightarrow> string \<Rightarrow> (char option \<times> string) option" where
  "lit fl [] p txt = Some (p, txt)"
| "lit fl (c # cs) p [] = None"
| "lit fl (c # cs) p (x # xs) = (if chr_ok fl c x then lit fl cs (Some x) xs else None)"

definition moved :: "mstate \<Rightarrow> char option \<times> string \<Rightarrow> mstate" where
  "moved s pr = s\<lparr>prev := fst pr, rest := snd pr\<rparr>"

text \<open>The text consumed between a state and a later state of the same match.\<close>

definition consumed :: "mstate \<Rightarrow> mstate \<Rightarrow> string" where
  "consumed s s' = take (length (rest s) - length (rest s')) (rest s)"

text \<open>
  \<open>ms fl r s\<close> is the list of all the states in which a match of \<open>r\<close> begun in \<open>s\<close> can
  end, in the order in which Python's backtracking matcher tries them: a greedy
  repetition offers its longest run first, a lazy one its shortest, an alternation its
  left branch first, and a sequence explores every end of its first part before giving
  one up. The match that \<^verbatim>\<open>re\<close> reports at a position is the first state of the list.
\<close>

fun ms :: "flags \<Rightarrow> re \<Rightarrow> mstate \<Rightarrow> mstate list" where
  "ms fl (Atom a) s =
     (case rest s of [] \<Rightarrow> []
      | c # cs \<Rightarrow> if atom_ok fl a c then [s\<lparr>prev := Some c, rest := cs\<rparr>] else [])"
| "ms fl (Str l) s =
     (case lit fl l (prev s) (rest s) of None \<Rightarrow> [] | Some pr \<Rightarrow> [moved s pr])"
| "ms fl (Rep a lo hi greedy) s =
     (let reach = runs fl a (prev s) (rest s);
          bounded = (case hi of None \<Rightarrow> reach | Some h \<Rightarrow> take (Suc h) reach);
          cands = drop lo bounded
      in map (moved s) (if greedy then rev cands else cands))"
| "ms fl (Seq r1 r2) s = concat (map (ms fl r2) (ms fl r1 s))"
| "ms fl (Alt r1 r2) s = ms fl r1 s @ ms fl r2 s"
| "ms fl (Group n r) s = map (\<lambda>s'. s'\<lparr>caps := (n, consumed s s') # caps s'\<rparr>) (ms fl r s)"
| "ms fl Caret s =
     (if prev s = None \<or> (multiline fl \<and> prev s = Some (CHR 0x0A)) then [s] else [])"
| "ms fl Dollar s =
     (if rest s = [] \<or> (multiline fl \<and> hd (rest s) = CHR 0x0A)
         \<or> (\<not> multiline fl \<and> rest s = [CHR 0x0A]) then [s] else [])"
| "ms fl EndZ s = (if rest s = [] then [s] else [])"
| "ms fl (Look r) s = (if ms fl r s = [] then [] else [s])"

text \<open>The number of capturing groups of a pattern (\<^verbatim>\<open>pattern.groups\<close>).\<close>

fun ngroups :: "re \<Rightarrow> nat" where
  "ngroups (Seq r1 r2) = ngroups r1 + ngroups r2"
| "ngroups (Alt r1 r2) = ngroups r1 + ngroups r2"
| "ngroups (Group n r) = Suc (ngroups r)"
| "ngroups (Look r) = ngroups r"
| "ngroups r = 0"

text \<open>
  A match object: where the match starts, the text between the place the search began
  (or the previous match ended) and the match, the matched text, its groups, and the
  text after it with the character that precedes that text.
\<close>

record rmatch =
  m_start :: nat
  m_pre :: string
  m_text :: string
  m_caps :: "(nat \<times> string) list"
  m_post_prev :: "char option"
  m_post :: string

definition mk_match :: "nat \<Rightarrow> string \<Rightarrow> string \<Rightarrow> mstate \<Rightarrow> rmatch" where
  "mk_match i pre txt s' =
     \<lparr>m_start = i, m_pre = pre, m_text = take (length txt - length (rest s')) txt,
      m_caps = caps s', m_post_prev = prev s', m_post = rest s'\<rparr>"

definition match_at :: "flags \<Rightarrow> re \<Rightarrow> char option \<Rightarrow> string \<Rightarrow> mstate option" where
  "match_at fl r p txt =
     (case ms fl r \<lparr>prev = p, rest = txt, caps = []\<rparr> of [] \<Rightarrow> None | s' # _ \<Rightarrow> Some s')"

text \<open>
  \<^verbatim>\<open>re.search\<close>: the first position, from the left, at which the pattern matches. The
  arguments are the offset of the position, the character before it, the text skipped
  so far (reversed) and the text from the position on.
\<close>

fun search_from :: "flags \<Rightarrow> re \<Rightarrow> nat \<Rightarrow> char option \<Rightarrow> string \<Rightarrow> string \<Rightarrow> rmatch option" where
  "search_from fl r i p skipped [] =
     (case match_at fl r p [] of None \<Rightarrow> None
      | Some s' \<Rightarrow> Some (mk_match i (rev skipped) [] s'))"
| "search_from fl r i p skipped (c # cs) =
     (case match_at fl r p (c # cs) of
        None \<Rightarrow> search_from fl r (Suc i) (Some c) (c # skipped) cs
      | Some s' \<Rightarrow> Some (mk_match i (rev skipped) (c # cs) s'))"

definition re_search :: "flags \<Rightarrow> re \<Rightarrow> string \<Rightarrow> rmatch option" where
  "re_search fl r txt = search_from fl r 0 None [] txt"

text \<open>\<^verbatim>\<open>re.match\<close>: a match at the start of the text only.\<close>

definition re_match :: "flags \<Rightarrow> re \<Rightarrow> string \<Rightarrow> rmatch option" where
  "re_match fl r txt = map_option (mk_match 0 [] txt) (match_at fl r None txt)"

text \<open>
  \<^verbatim>\<open>finditer\<close>: the successive non-overlapping matches, left to right. \<open>k\<close> counts the
  characters still covered by the match found last, which are passed over without a
  new attempt. Every pattern that the program iterates begins with a mandatory
  character, so none of them matches the empty string; a match of length 0 would be
  recorded and the scan would move on by one character.
\<close>

fun find_from :: "flags \<Rightarrow> re \<Rightarrow> nat \<Rightarrow> char option \<Rightarrow> nat \<Rightarrow> string \<Rightarrow> string \<Rightarrow> rmatch list" where
  "find_from fl r i p k skipped [] =
     (if k > 0 then []
      else case match_at fl r p [] of None \<Rightarrow> []
           | Some s' \<Rightarrow> [mk_match i (rev skipped) [] s'])"
| "find_from fl r i p k skipped (c # cs) =
     (if k > 0 then find_from fl r (Suc i) (Some c) (k - 1) skipped cs
      else case match_at fl r p (c # cs) of
             None \<Rightarrow> find_from fl r (Suc i) (Some c) 0 (c # skipped) cs
           | Some s' \<Rightarrow>
               mk_match i (rev skipped) (c # cs) s'
                 # find_from fl r (Suc i) (Some c) (length (c # cs) - length (rest s') - 1)
                     (if rest s' = c # cs then [c] else []) cs)"

definition finditer :: "flags \<Rightarrow> re \<Rightarrow> string \<Rightarrow> rmatch list" where
  "finditer fl r txt = find_from fl r 0 None 0 [] txt"

text \<open>\<^verbatim>\<open>m.group(n)\<close> raises \<^verbatim>\<open>IndexError\<close> when the pattern has no group \<open>n\<close>.\<close>

datatype error = NoSuchGroup | ListIndexOutOfRange

definition group :: "re \<Rightarrow> rmatch \<Rightarrow> nat \<Rightarrow> error + string option" where
  "group r m n = (if n > ngroups r then Inl NoSuchGroup else Inr (map_of (m_caps m) n))"

text \<open>
  \<^verbatim>\<open>re.findall\<close> for a pattern with exactly one group: the text of that group in each
  match (the empty string when the group took no part).
\<close>

definition findall1 :: "flags \<Rightarrow> re \<Rightarrow> string \<Rightarrow> string list" where
  "findall1 fl r txt =
     map (\<lambda>m. case map_of (m_caps m) 1 of None \<Rightarrow> [] | Some g \<Rightarrow> g) (finditer fl r txt)"

text \<open>
  \<^verbatim>\<open>re.split\<close> for a pattern without groups: the pieces between the matches, and with
  \<^verbatim>\<open>maxsplit=1\<close> the two pieces around the first match.
\<close>

definition re_split :: "flags \<Rightarrow> re \<Rightarrow> string \<Rightarrow> string list" where
  "re_split fl r txt =
     (let found = finditer fl r txt
      in map m_pre found @ [if found = [] then txt else m_post (last found)])"

definition re_split1 :: "flags \<Rightarrow> re \<Rightarrow> string \<Rightarrow> string list" where
  "re_split1 fl r txt =
     (case re_search fl r txt of None \<Rightarrow> [txt] | Some m \<Rightarrow> [m_pre m, m_post m])"

section \<open>The patterns of note_parser.py\<close>

definition star :: "atom \<Rightarrow> re" where "star a = Rep a 0 None True"
definition plus :: "atom \<Rightarrow> re" where "plus a = Rep a 1 None True"
definition opt :: "atom \<Rightarrow> re" where "opt a = Rep a 0 (Some 1) True"
definition lazy_star :: "atom \<Rightarrow> re" where "lazy_star a = Rep a 0 None False"
definition times :: "nat \<Rightarrow> atom \<Rightarrow> re" where "times n a = Rep a n (Some n) True"

fun seq :: "re list \<Rightarrow> re" where
  "seq [] = Str []"
| "seq [r] = r"
| "seq (r # rs) = Seq r (seq rs)"

definition ws :: atom where "ws = Set [Space]"
definition digit :: atom where "digit = Set [Digit]"
definition blank :: atom where "blank = Set [Ch (CHR '' ''), Ch (CHR 0x09)]"
definition bullet_mark :: atom where "bullet_mark = Set [Ch (CHR ''-''), Ch (CHR ''*'')]"

definition no_flags :: flags where
  "no_flags = \<lparr>ignorecase = False, multiline = False, dotall = False\<rparr>"
definition flags_M :: flags where
  "flags_M = \<lparr>ignorecase = False, multiline = True, dotall = False\<rparr>"
definition flags_IM :: flags where
  "flags_IM = \<lparr>ignorecase = True, multiline = True, dotall = False\<rparr>"
definition flags_SM :: flags where
  "flags_SM = \<lparr>ignorecase = False, multiline = True, dotall = True\<rparr>"

text \<open>\<^verbatim>\<open>_BULLET_RE = r"^[ \t]*[-*]\s+(.*)"\<close>\<close>

definition BULLET_RE :: re where
  "BULLET_RE = seq [Caret, star blank, Atom bullet_mark, plus ws, Group 1 (star Dot)]"

text \<open>\<^verbatim>\<open>r"^#{1,6}\s+"\<close>, the heading that ends a bulleted block.\<close>

definition heading_re :: re where
  "heading_re = seq [Caret, Rep (Chr (CHR ''#'')) 1 (Some 6) True, plus ws]"

text \<open>
  The two header patterns of \<^verbatim>\<open>_extract_bulleted_block\<close> are written as f-strings:
  \<^verbatim>\<open>rf"^#{2,4}\s*{re.escape(label)}\s*:?[ \t]*$"\<close> and
  \<^verbatim>\<open>rf"^#{2,4}.*{re.escape(label)}.*$"\<close>. In an f-string \<^verbatim>\<open>{2,4}\<close> is a replacement field:
  Python evaluates the expression \<^verbatim>\<open>2,4\<close> to the tuple \<^verbatim>\<open>(2, 4)\<close> and inserts its text, so
  the patterns that reach \<^verbatim>\<open>re.search\<close> are \<^verbatim>\<open>^#(2, 4)\s*label\s*:?[ \t]*$\<close> and
  \<^verbatim>\<open>^#(2, 4).*label.*$\<close>: one \<^verbatim>\<open>#\<close>, then a group matching the five characters
  \<^verbatim>\<open>2, 4\<close>. \<^verbatim>\<open>re.escape\<close> makes the label a literal.
\<close>

definition hdr_re :: "string \<Rightarrow> re" where
  "hdr_re label = seq [Caret, Atom (Chr (CHR ''#'')), Group 1 (Str ''2, 4''), star ws, Str label,
                       star ws, opt (Chr (CHR '':'')), star blank, Dollar]"

definition loose_hdr_re :: "string \<Rightarrow> re" where
  "loose_hdr_re label = seq [Caret, Atom (Chr (CHR ''#'')), Group 1 (Str ''2, 4''), star Dot,
                             Str label, star Dot, Dollar]"

text \<open>\<^verbatim>\<open>r"^[-*]\s*\[.?\]\s*(.+)$"\<close>, the checkbox bullets.\<close>

definition checkbox_re :: re where
  "checkbox_re = seq [Caret, Atom bullet_mark, star ws, Atom (Chr (CHR ''['')), opt Dot,
                      Atom (Chr (CHR '']'')), star ws, Group 1 (plus Dot), Dollar]"

text \<open>\<^verbatim>\<open>r"\||\(Due:|_?Due:?\s"\<close>, the delimiters between a task and its due date.\<close>

definition due_split_re :: re where
  "due_split_re = Alt (Atom (Chr (CHR ''|'')))
                   (Alt (Str ''(Due:'')
                        (seq [opt (Chr (CHR ''_'')), Str ''Due'', opt (Chr (CHR '':'')), Atom ws]))"

text \<open>\<^verbatim>\<open>r"^##\s+Meeting Title\s*:|^##\s+(?=[A-Za-z0-9].*)"\<close>\<close>

definition split_pat :: re where
  "split_pat =
     Alt (seq [Caret, Str ''##'', plus ws, Str ''Meeting Title'', star ws, Atom (Chr (CHR '':''))])
         (seq [Caret, Str ''##'', plus ws,
               Look (seq [Atom (Set [Rng (CHR ''A'') (CHR ''Z''), Rng (CHR ''a'') (CHR ''z''),
                                     Rng (CHR ''0'') (CHR ''9'')]), star Dot])])"

text \<open>\<^verbatim>\<open>[r"^#\s*(.+)", r"##\s*Meeting Title\s*:?"]\<close>; the second pattern has no group.\<close>

definition title_patterns :: "re list" where
  "title_patterns =
     [seq [Caret, Atom (Chr (CHR ''#'')), star ws, Group 1 (plus Dot)],
      seq [Str ''##'', star ws, Str ''Meeting Title'', star ws, opt (Chr (CHR '':''))]]"

text \<open>\<^verbatim>\<open>r"(\d{4}-\d{2}-\d{2})"\<close>\<close>

definition iso_date_re :: re where
  "iso_date_re = Group 1 (seq [times 4 digit, Atom (Chr (CHR ''-'')), times 2 digit,
                               Atom (Chr (CHR ''-'')), times 2 digit])"

text \<open>\<^verbatim>\<open><label>\s*[:\-]?\s*(.+)\<close>\<close>

definition field_re :: "string \<Rightarrow> re" where
  "field_re label = seq [Str label, star ws, opt (Set [Ch (CHR '':''), Ch (CHR ''-'')]), star ws,
                         Group 1 (plus Dot)]"

text \<open>\<^verbatim>\<open>[r"\*\*Date\*\*\s*[:\-]?\s*(.+)", r"Date\s*[:\-]?\s*(.+)", r"(\d{4}-\d{2}-\d{2})"]\<close>\<close>

definition date_patterns :: "re list" where
  "date_patterns = [field_re ''**Date**'', field_re ''Date'', iso_date_re]"

text \<open>\<^verbatim>\<open>[r"\*\*Attendees\*\*\s*[:\-]?\s*(.+)", r"Attendees\s*[:\-]?\s*(.+)"]\<close>\<close>

definition attendees_patterns :: "re list" where
  "attendees_patterns = [field_re ''**Attendees**'', field_re ''Attendees'']"

text \<open>\<^verbatim>\<open>r"[,;]\s*"\<close>\<close>

definition attendees_split_re :: re where
  "attendees_split_re = Seq (Atom (Set [Ch (CHR '',''), Ch (CHR '';'')])) (star ws)"

text \<open>
  \<^verbatim>\<open>r"^##\s+(?P<title>.+)\s*$\n(?P<body>.*?)(?=^##\s+|\Z)"\<close>, compiled with
  \<^verbatim>\<open>re.DOTALL | re.MULTILINE\<close>; \<open>title\<close> is group 1 and \<open>body\<close> group 2.
\<close>

definition section_re :: re where
  "section_re = seq [Caret, Str ''##'', plus ws, Group 1 (plus Dot), star ws, Dollar,
                     Atom (Chr (CHR 0x0A)), Group 2 (lazy_star Dot),
                     Look (Alt (seq [Caret, Str ''##'', plus ws]) EndZ)]"

section \<open>note_parser.py\<close>

text \<open>The text of a group of a match in which the group took part.\<close>

definition group_text :: "rmatch \<Rightarrow> nat \<Rightarrow> string" where
  "group_text m n = (case map_of (m_caps m) n of None \<Rightarrow> [] | Some g \<Rightarrow> g)"

text \<open>
  \<^verbatim>\<open>_safe_extract_field\<close>: the first pattern that matches decides; \<^verbatim>\<open>m.group(1)\<close> raises for a
  pattern without a group.
\<close>

fun safe_extract_field :: "string \<Rightarrow> re list \<Rightarrow> error + string" where
  "safe_extract_field text [] = Inr []"
| "safe_extract_field text (p # ps) =
     (case re_search flags_IM p text of
        None \<Rightarrow> safe_extract_field text ps
      | Some m \<Rightarrow>
          (case group p m 1 of
             Inl e \<Rightarrow> Inl e
           | Inr g \<Rightarrow> Inr (strip (case g of None \<Rightarrow> [] | Some v \<Rightarrow> v))))"

text \<open>The loop over the lines that follow a header, with its two \<^verbatim>\<open>break\<close>s.\<close>

fun collect_bullets :: "string list \<Rightarrow> string list" where
  "collect_bullets [] = []"
| "collect_bullets (line # ls) =
     (if re_match no_flags heading_re line \<noteq> None then []
      else case re_match no_flags BULLET_RE line of
             Some m \<Rightarrow> strip (group_text m 1) # collect_bullets ls
           | None \<Rightarrow> if strip line = [] then collect_bullets ls else [])"

fun extract_bulleted_block :: "string \<Rightarrow> string list \<Rightarrow> string" where
  "extract_bulleted_block text [] = []"
| "extract_bulleted_block text (label # labels) =
     (let match = (case re_search flags_IM (hdr_re label) text of
                     None \<Rightarrow> re_search flags_IM (loose_hdr_re label) text
                   | Some m \<Rightarrow> Some m)
      in case match of
           None \<Rightarrow> extract_bulleted_block text labels
         | Some m \<Rightarrow>
             (let lines = collect_bullets (splitlines (m_post m))
              in if lines \<noteq> [] then join [CHR 0x0A] lines
                 else extract_bulleted_block text labels))"

record action_item =
  task :: string
  dueDate :: string

text \<open>
  The loop of \<^verbatim>\<open>_extract_action_items\<close> over the candidate lines: \<^verbatim>\<open>parts[0]\<close> raises
  \<^verbatim>\<open>IndexError\<close> when no piece of the line is left after the empty ones are dropped.
\<close>

fun action_items_of :: "string list \<Rightarrow> error + action_item list" where
  "action_items_of [] = Inr []"
| "action_items_of (line # ls) =
     (let raw = strip line
      in if raw = [] then action_items_of ls
         else (let parts = map strip (filter (\<lambda>p. p \<noteq> [] \<and> strip p \<noteq> [])
                                          (re_split1 no_flags due_split_re raw))
               in case parts of
                    [] \<Rightarrow> Inl ListIndexOutOfRange
                  | t # others \<Rightarrow>
                      (case action_items_of ls of
                         Inl e \<Rightarrow> Inl e
                       | Inr items \<Rightarrow>
                           Inr (\<lparr>task = t, dueDate = (case others of [] \<Rightarrow> [] | d # _ \<Rightarrow> d)\<rparr>
                                  # items))))"

definition action_candidates :: "string \<Rightarrow> string list" where
  "action_candidates text =
     (let block = extract_bulleted_block text [''Action Items'', ''Actions'', ''Action'']
      in if block = [] then findall1 flags_IM checkbox_re text else splitlines block)"

definition extract_action_items :: "string \<Rightarrow> error + action_item list" where
  "extract_action_items text = action_items_of (action_candidates text)"

section \<open>Paths, files and hashing\<close>

text \<open>
  The functions of \<^verbatim>\<open>os.path\<close> that the parser calls, for POSIX paths:
  \<^verbatim>\<open>basename\<close> is what follows the last slash; \<^verbatim>\<open>dirname\<close> is what precedes it, without
  its trailing slashes unless it consists of slashes only; \<^verbatim>\<open>splitext(p)[0]\<close> cuts the
  path before the last dot of its last component, unless only dots precede that dot.
\<close>

definition slash :: char where "slash = CHR ''/''"

definition basename :: "string \<Rightarrow> string" where
  "basename p = rev (takeWhile (\<lambda>c. c \<noteq> slash) (rev p))"

definition dirname :: "string \<Rightarrow> string" where
  "dirname p =
     (let head = rev (dropWhile (\<lambda>c. c \<noteq> slash) (rev p))
      in if head \<noteq> [] \<and> \<not> list_all (\<lambda>c. c = slash) head
         then rev (dropWhile (\<lambda>c. c = slash) (rev head)) else head)"

definition splitext_root :: "string \<Rightarrow> string" where
  "splitext_root p =
     (let b = basename p
      in if CHR ''.'' \<notin> set b then p
         else (let ext = CHR ''.'' # rev (takeWhile (\<lambda>c. c \<noteq> CHR ''.'') (rev b));
                   stem = take (length b - length ext) b
               in if list_all (\<lambda>c. c = CHR ''.'') stem then p
                  else take (length p - length ext) p))"

text \<open>
  What the parser reads from its environment: whether a path exists, the decoded
  contents of a file (\<open>None\<close> when opening or decoding raises), the text of
  \<^verbatim>\<open>os.stat(path).st_mtime\<close> (\<open>None\<close> when \<^verbatim>\<open>os.stat\<close> raises), and the function from a
  string to the hexadecimal MD5 digest of its encoding.
\<close>

record env =
  path_exists :: "string \<Rightarrow> bool"
  read_text :: "string \<Rightarrow> string option"
  stat_mtime :: "string \<Rightarrow> string option"
  md5_hex :: "string \<Rightarrow> string"

definition file_mtime_hash :: "env \<Rightarrow> string \<Rightarrow> string" where
  "file_mtime_hash e path =
     md5_hex e (case stat_mtime e path of None \<Rightarrow> path | Some t \<Rightarrow> path @ '':'' @ t)"

section \<open>parse_multiple_notes\<close>

text \<open>
  A \<open>document\<close> is the \<^verbatim>\<open>Document\<close> that the parser appends: its \<^verbatim>\<open>page_content\<close> and the
  seven entries of its metadata. A \<open>meeting\<close> adds the values of the local variables
  \<^verbatim>\<open>notes\<close> (here \<open>notes_text\<close>) and \<^verbatim>\<open>actions\<close> at the moment of the append; the \<^verbatim>\<open>Document\<close> itself carries the
  notes only inside \<^verbatim>\<open>page_content\<close> and the action items not at all.
\<close>

record document =
  page_content :: string
  file_id :: string
  path :: string
  source :: string
  title :: string
  date :: string
  attendees :: "string list"
  topic :: string

record meeting = document +
  notes_text :: string
  actions :: "action_item list"

text \<open>\<^verbatim>\<open>[a.strip() for a in re.split(r"[,;]\s*", attendees_raw) if a.strip()]\<close>\<close>

definition split_attendees :: "string \<Rightarrow> string list" where
  "split_attendees attendees_raw =
     map strip (filter (\<lambda>a. strip a \<noteq> []) (re_split no_flags attendees_split_re attendees_raw))"

text \<open>\<^verbatim>\<open>A or B\<close> on two extractions: \<open>B\<close> is evaluated only when \<open>A\<close> is the empty string.\<close>

definition or_else :: "error + string \<Rightarrow> error + string \<Rightarrow> error + string" where
  "or_else a b = (case a of Inl e \<Rightarrow> Inl e | Inr v \<Rightarrow> if v \<noteq> [] then Inr v else b)"

definition render :: "string \<Rightarrow> string list \<Rightarrow> string \<Rightarrow> string" where
  "render t atts body =
     ''Meeting Title: '' @ t @ [CHR 0x0A, CHR 0x0A] @ ''Attendees:'' @ [CHR 0x0A]
       @ (if atts \<noteq> [] then join [CHR 0x0A] atts else ''(none)'')
       @ [CHR 0x0A, CHR 0x0A] @ ''Notes:'' @ [CHR 0x0A] @ body"

definition mk_meeting ::
  "string \<Rightarrow> string \<Rightarrow> string \<Rightarrow> string \<Rightarrow> string \<Rightarrow> string list \<Rightarrow> string
     \<Rightarrow> action_item list \<Rightarrow> meeting" where
  "mk_meeting content fid p t d atts n acts =
     \<lparr>page_content = content, file_id = fid, path = p, source = basename p, title = t, date = d,
      attendees = atts, topic = basename (dirname p), notes_text = n, actions = acts\<rparr>"

text \<open>The branch \<^verbatim>\<open>if len(sections) <= 1\<close>: the whole file is one meeting.\<close>

definition parse_single :: "env \<Rightarrow> string \<Rightarrow> string \<Rightarrow> error + meeting list" where
  "parse_single e p raw =
     (case safe_extract_field raw title_patterns of
        Inl err \<Rightarrow> Inl err
      | Inr t0 \<Rightarrow>
     (let t = (if t0 = [] then splitext_root (basename p) else t0)
      in case or_else (safe_extract_field raw date_patterns) (safe_extract_field p [iso_date_re]) of
        Inl err \<Rightarrow> Inl err
      | Inr d \<Rightarrow>
     (case safe_extract_field raw attendees_patterns of
        Inl err \<Rightarrow> Inl err
      | Inr attendees_raw \<Rightarrow>
     (let atts = split_attendees attendees_raw;
          block = extract_bulleted_block raw [''Notes'', ''Topics''];
          n = (if block \<noteq> [] then block else join [CHR 0x0A] (findall1 flags_M BULLET_RE raw))
      in case extract_action_items raw of
        Inl err \<Rightarrow> Inl err
      | Inr acts \<Rightarrow>
          Inr [mk_meeting (render t atts (if n \<noteq> [] then n else strip raw))
                 (file_mtime_hash e p) p t d atts n acts]))))"

text \<open>
  The body of the loop over the matches of the section pattern; \<open>None\<close> is the
  \<^verbatim>\<open>continue\<close> that skips a section with neither notes nor action items.
\<close>

definition parse_section :: "env \<Rightarrow> string \<Rightarrow> rmatch \<Rightarrow> error + meeting option" where
  "parse_section e p m =
     (let t = strip (group_text m 1);
          body = strip (group_text m 2)
      in case safe_extract_field body attendees_patterns of
        Inl err \<Rightarrow> Inl err
      | Inr attendees_raw \<Rightarrow>
     (let atts = split_attendees attendees_raw;
          n = extract_bulleted_block body [''Notes'', ''Topics'']
      in case extract_action_items body of
        Inl err \<Rightarrow> Inl err
      | Inr acts \<Rightarrow>
     (case or_else (safe_extract_field body date_patterns) (safe_extract_field t [iso_date_re]) of
        Inl err \<Rightarrow> Inl err
      | Inr d \<Rightarrow>
          (let fid = md5_hex e (p @ '':'' @ t @ '':'' @ d)
           in if n = [] \<and> acts = [] then Inr None
              else Inr (Some (mk_meeting (render t atts n) fid p t d atts n acts))))))"

fun parse_sections :: "env \<Rightarrow> string \<Rightarrow> rmatch list \<Rightarrow> error + meeting list" where
  "parse_sections e p [] = Inr []"
| "parse_sections e p (m # rest_ms) =
     (case parse_section e p m of
        Inl err \<Rightarrow> Inl err
      | Inr doc \<Rightarrow>
          (case parse_sections e p rest_ms of
             Inl err \<Rightarrow> Inl err
           | Inr docs \<Rightarrow> Inr (case doc of None \<Rightarrow> docs | Some d \<Rightarrow> d # docs)))"

text \<open>The parser on the text of a file that was read.\<close>

definition parse_text :: "env \<Rightarrow> string \<Rightarrow> string \<Rightarrow> error + meeting list" where
  "parse_text e p raw =
     (if length (re_split flags_M split_pat raw) \<le> 1 then parse_single e p raw
      else parse_sections e p (finditer flags_SM section_re raw))"

definition parse_multiple_notes :: "env \<Rightarrow> string \<Rightarrow> error + meeting list" where
  "parse_multiple_notes e p =
     (if \<not> path_exists e p then Inr []
      else case read_text e p of None \<Rightarrow> Inr [] | Some raw \<Rightarrow> parse_text e p raw)"

text \<open>An environment in which the file at \<open>p\<close> exists and holds \<open>raw\<close>.\<close>

definition file_env :: "string \<Rightarrow> string \<Rightarrow> (string \<Rightarrow> string) \<Rightarrow> env" where
  "file_env p raw h =
     \<lparr>path_exists = (\<lambda>q. q = p), read_text = (\<lambda>q. if q = p then Some raw else None),
      stat_mtime = (\<lambda>q. None), md5_hex = h\<rparr>"

section \<open>notes.py: the serializer of the authoring form\<close>

text \<open>
  The dictionary that \<^verbatim>\<open>get_note_data\<close> builds, with its five keys \<^verbatim>\<open>meetingTitle\<close>,
  \<^verbatim>\<open>date\<close>, \<^verbatim>\<open>attendees\<close>, \<^verbatim>\<open>notes\<close> and \<^verbatim>\<open>actionItems\<close>.
\<close>

record note_data =
  n_meetingTitle :: string
  n_date :: string
  n_attendees :: "string list"
  n_notes :: string
  n_actionItems :: "action_item list"

text \<open>The line that \<^verbatim>\<open>_compose_markdown\<close> writes for one action item.\<close>

definition action_line :: "action_item \<Rightarrow> string" where
  "action_line item =
     (let t = strip (task item); due = strip (dueDate item)
      in ''- [ ] '' @ t @ (if due \<noteq> [] then '' _(Due: '' @ due @ '')_'' else []))"

definition compose_markdown :: "note_data \<Rightarrow> string" where
  "compose_markdown data =
     join [CHR 0x0A]
       ([''# '' @ n_meetingTitle data,
         ''**Date:** '' @ n_date data,
         ''**Attendees:** '' @ join '', '' (n_attendees data),
         [],
         ''## Notes'' @ [CHR 0x0A] @ n_notes data]
        @ (if n_actionItems data \<noteq> []
           then (CHR 0x0A # ''## Action Items'') # map action_line (n_actionItems data)
           else []))"

section \<open>Inputs of the scenarios\<close>

text \<open>The eight lines of the end-to-end scenario, the last one without a line feed.\<close>

definition scenario_text :: string where
  "scenario_text = ''## Team Sync\<newline>**Date:** 2025-03-01\<newline>**Attendees:** Alice, Bob\<newline>### Notes\<newline>- Discussed roadmap\<newline>- Reviewed budget\<newline>## Action Items\<newline>- [ ] Send follow-up (Due: 2025-03-05)''"

text \<open>A note as the authoring form produces it: trimmed, non-empty names and tasks.\<close>

definition sample_note :: note_data where
  "sample_note = \<lparr>n_meetingTitle = ''Sync'', n_date = ''2025-03-01'',
                   n_attendees = [''Alice'', ''Bob''], n_notes = ''Talked'',
                   n_actionItems = [\<lparr>task = ''Send report'', dueDate = ''2025-03-05''\<rparr>]\<rparr>"

section \<open>The action-item normalizer on single lines\<close>

text \<open>
  C6. For the candidate line \<^verbatim>\<open>Fix bug | 2025-09-01 (Due: 2025-09-02)\<close> the normalizer
  returns the task \<^verbatim>\<open>Fix bug\<close> and the due date \<^verbatim>\<open>2025-09-01 (Due: 2025-09-02)\<close>, one
  trimmed string: the line is split once, at the pipe, which occurs before the
  \<^verbatim>\<open>(Due:\<close> marker, and the later marker stays inside the second piece.
\<close>

theorem C6_pipe_before_due_marker:
  "re_split1 no_flags due_split_re ''Fix bug | 2025-09-01 (Due: 2025-09-02)''
     = [''Fix bug '', '' 2025-09-01 (Due: 2025-09-02)'']
   \<and> action_items_of [''Fix bug | 2025-09-01 (Due: 2025-09-02)'']
     = Inr [\<lparr>task = ''Fix bug'', dueDate = ''2025-09-01 (Due: 2025-09-02)''\<rparr>]
   \<and> extract_action_items ''- [ ] Fix bug | 2025-09-01 (Due: 2025-09-02)''
     = Inr [\<lparr>task = ''Fix bug'', dueDate = ''2025-09-01 (Due: 2025-09-02)''\<rparr>]"
  by code_simp

section \<open>Inputs on which the parser raises\<close>

text \<open>
  C2. The parser does raise on malformed text. On the file \<^verbatim>\<open>- [ ] |\<close> the checkbox
  bullet yields the candidate \<^verbatim>\<open>|\<close>, whose two pieces around the pipe are both empty, so
  \<^verbatim>\<open>parts\<close> is empty and \<^verbatim>\<open>parts[0]\<close> raises \<^verbatim>\<open>IndexError\<close>. On the file
  \<^verbatim>\<open>foo ## Meeting Title\<close> no line begins with \<^verbatim>\<open>#\<close>, the second title pattern matches,
  and \<^verbatim>\<open>m.group(1)\<close> raises \<^verbatim>\<open>IndexError\<close> because that pattern has no group.
\<close>

theorem C2_parser_raises:
  "parse_multiple_notes (file_env ''notes/todo.md'' ''- [ ] |'' h) ''notes/todo.md''
     = Inl ListIndexOutOfRange
   \<and> parse_multiple_notes (file_env ''notes/todo.md'' ''foo ## Meeting Title'' h) ''notes/todo.md''
     = Inl NoSuchGroup"
  by code_simp

section \<open>The end-to-end scenario\<close>

text \<open>
  C1. On the scenario text the parser does emit exactly one record, but not the one the
  claim describes. The section pattern is compiled with \<^verbatim>\<open>re.DOTALL\<close>, so the greedy
  \<^verbatim>\<open>.+\<close> of the title group runs across the line ends and is given back only as far as
  the last line feed of the text: the title is everything from \<^verbatim>\<open>Team Sync\<close> to
  \<^verbatim>\<open>## Action Items\<close>, the body is the last line alone. The date is then the first
  date-shaped token of that body, the attendees are empty, the notes are empty (the
  header pattern of the bulleted block asks for the literal \<^verbatim>\<open>#(2, 4)\<close>), and the due date
  keeps its closing parenthesis. When the text ends with a line feed, the body is empty
  and the only section is skipped: no record at all.
\<close>

theorem C1_scenario_output:
  "parse_multiple_notes (file_env ''notes/sync.md'' scenario_text h) ''notes/sync.md''
     = Inr [\<lparr>page_content = ''Meeting Title: Team Sync\<newline>**Date:** 2025-03-01\<newline>**Attendees:** Alice, Bob\<newline>### Notes\<newline>- Discussed roadmap\<newline>- Reviewed budget\<newline>## Action Items\<newline>\<newline>Attendees:\<newline>(none)\<newline>\<newline>Notes:\<newline>'',
             file_id = h ''notes/sync.md:Team Sync\<newline>**Date:** 2025-03-01\<newline>**Attendees:** Alice, Bob\<newline>### Notes\<newline>- Discussed roadmap\<newline>- Reviewed budget\<newline>## Action Items:2025-03-05'',
             path = ''notes/sync.md'', source = ''sync.md'',
             title = ''Team Sync\<newline>**Date:** 2025-03-01\<newline>**Attendees:** Alice, Bob\<newline>### Notes\<newline>- Discussed roadmap\<newline>- Reviewed budget\<newline>## Action Items'',
             date = ''2025-03-05'', attendees = [], topic = ''notes'', notes_text = [],
             actions = [\<lparr>task = ''Send follow-up'', dueDate = ''2025-03-05)''\<rparr>]\<rparr>]
   \<and> parse_multiple_notes (file_env ''notes/sync.md'' (scenario_text @ [CHR 0x0A]) h)
         ''notes/sync.md'' = Inr []"
  by code_simp

section \<open>Two sections, one of them empty\<close>

text \<open>
  C7. A file with a section that has a bulleted Notes block and a section with an empty
  body yields no record, whichever section comes first and whether the block is headed
  \<^verbatim>\<open>## Notes\<close> or \<^verbatim>\<open>### Notes\<close>: the section pattern matches once, its title group takes
  every line up to the last line feed, and the body that is left holds neither a
  recognised Notes header nor a checkbox bullet.
\<close>

theorem C7_two_sections_no_record:
  "parse_multiple_notes
     (file_env ''notes/week.md'' ''## Standup\<newline>## Notes\<newline>- shipped\<newline>## Retro'' h) ''notes/week.md'' = Inr []
   \<and> parse_multiple_notes
     (file_env ''notes/week.md'' ''## Standup\<newline>### Notes\<newline>- shipped\<newline>## Retro\<newline>'' h) ''notes/week.md'' = Inr []
   \<and> parse_multiple_notes
     (file_env ''notes/week.md'' ''## Retro\<newline>## Standup\<newline>## Notes\<newline>- shipped\<newline>'' h) ''notes/week.md'' = Inr []"
  by code_simp

section \<open>Serializing a note and parsing it back\<close>

text \<open>
  C3. The markdown that \<^verbatim>\<open>_compose_markdown\<close> writes for the sample note (title
  \<^verbatim>\<open>Sync\<close>, date \<^verbatim>\<open>2025-03-01\<close>, attendees Alice and Bob, one action item \<^verbatim>\<open>Send report\<close> due
  \<^verbatim>\<open>2025-03-05\<close>) is parsed back into one record with another title (the \<^verbatim>\<open>## Notes\<close>
  heading and what follows it), another date, no attendees, and an action item whose
  task and due date carry the emphasis markers of the serializer.
\<close>

theorem C3_round_trip_output:
  "compose_markdown sample_note
     = ''# Sync\<newline>**Date:** 2025-03-01\<newline>**Attendees:** Alice, Bob\<newline>\<newline>## Notes\<newline>Talked\<newline>\<newline>## Action Items\<newline>- [ ] Send report _(Due: 2025-03-05)_''
   \<and> parse_multiple_notes (file_env ''notes/sync.md'' (compose_markdown sample_note) h)
         ''notes/sync.md''
     = Inr [\<lparr>page_content = ''Meeting Title: Notes\<newline>Talked\<newline>\<newline>## Action Items\<newline>\<newline>Attendees:\<newline>(none)\<newline>\<newline>Notes:\<newline>'',
             file_id = h ''notes/sync.md:Notes\<newline>Talked\<newline>\<newline>## Action Items:2025-03-05'',
             path = ''notes/sync.md'', source = ''sync.md'',
             title = ''Notes\<newline>Talked\<newline>\<newline>## Action Items'', date = ''2025-03-05'',
             attendees = [], topic = ''notes'', notes_text = [],
             actions = [\<lparr>task = ''Send report _'', dueDate = ''2025-03-05)_''\<rparr>]\<rparr>]"
  by code_simp

end
